theory Spec2Isabelle
  imports Complex_Main "HOL-Library.Word" "HOL-Library.Log_Nat"
begin

section \<open>Lung resampling and cropping step (dsb3/steps/resample\_lungs.py)\<close>

text \<open>
  A shallow embedding of the step that resamples CT scans, normalises their intensity,
  finds the lung wings slice by slice and crops the scan to one bounding box.
  Python integers are \<^typ>\<open>int\<close>, sizes are \<^typ>\<open>nat\<close>, the voxels of an
  \<^verbatim>\<open>int16\<close> array are \<^typ>\<open>16 word\<close>. The floats of the resampling and of the
  float normalisation are IEEE numbers (\<open>fval\<close>): every operation rounds its exact
  result to the format, overflows to an infinity and keeps NaN. The floats of
  \<open>get_crop_idx_yx\<close> and the pixel spacings of the loader are exact rationals: what is
  shown of them (a sign, a comparison with a bound, a truncation of a number that is
  exact in binary64) does not depend on the rounding. The source is read as Python 3
  (\<^verbatim>\<open>/\<close> is true division, \<^verbatim>\<open>round\<close> rounds a half to the even neighbour).
  Exceptions are values of \<open>error\<close>; what the source logs or writes to disk is a list
  of \<open>event\<close>s.
\<close>

subsection \<open>Exceptions, log records and effects\<close>

datatype error =
    ValueError string
  | UnboundLocalError string
  | TypeError string
  | OverflowError string
  | IndexError
  | ZeroDivisionError

datatype level = Info | Warning | Error

text \<open>Python's \<^verbatim>\<open>int(x)\<close> on a float truncates towards zero.\<close>

definition py_int :: "rat \<Rightarrow> int" where
  "py_int q = (if 0 \<le> q then \<lfloor>q\<rfloor> else \<lceil>q\<rceil>)"

subsection \<open>Floating-point numbers\<close>

text \<open>
  \<^verbatim>\<open>np.round\<close> and Python 3's \<^verbatim>\<open>round\<close> round to the nearest integer, a half to
  the even neighbour.
\<close>

definition np_round :: "rat \<Rightarrow> int" where
  "np_round q =
     (let f = \<lfloor>q\<rfloor>; r = q - of_int f
      in if r < 1 / 2 then f else if 1 / 2 < r then f + 1 else if even f then f else f + 1)"

text \<open>
  A float is a finite number, an infinity or NaN; the two zeros are not told apart.
\<close>

datatype fval = Fin rat | PInf | NInf | FNaN

text \<open>
  \<open>float_exponent x\<close> is the integer \<open>e\<close> with \<open>2^e \<le> |x| < 2^(e+1)\<close>, found from the
  bit lengths of numerator and denominator. Rounding to a binary format of precision
  \<open>p\<close> with least exponent \<open>emin\<close> takes the nearest multiple of the unit in the
  last place, a tie to the even multiple; below \<open>2^emin\<close> the unit stays that of
  \<open>emin\<close> (subnormal numbers). A rounded magnitude of \<open>2^(emax+1)\<close> or more is an
  infinity. binary64 has precision 53 and exponents from -1022 to 1023, binary32
  precision 24 and exponents from -126 to 127.
\<close>

definition float_exponent :: "rat \<Rightarrow> int" where
  "float_exponent x =
     (case quotient_of \<bar>x\<bar> of
        (p, q) \<Rightarrow> let d = bitlen p - bitlen q in if 2 powi d \<le> \<bar>x\<bar> then d else d - 1)"

definition round_to_format :: "nat \<Rightarrow> int \<Rightarrow> rat \<Rightarrow> rat" where
  "round_to_format p emin x =
     (if x = 0 then 0
      else let e = max (float_exponent x) emin; ulp = 2 powi (e - int p + 1)
           in of_int (np_round (x / ulp)) * ulp)"

definition round_float :: "nat \<Rightarrow> int \<Rightarrow> int \<Rightarrow> rat \<Rightarrow> fval" where
  "round_float p emin emax x =
     (let y = round_to_format p emin x
      in if y \<noteq> 0 \<and> emax < float_exponent y then (if 0 < y then PInf else NInf)
         else Fin y)"

definition round64 :: "rat \<Rightarrow> fval" where
  "round64 = round_float 53 (- 1022) 1023"

definition round32 :: "rat \<Rightarrow> fval" where
  "round32 = round_float 24 (- 126) 127"

text \<open>
  Multiplication, division and subtraction round the exact result with \<open>rnd\<close>; the
  cases with an infinity or NaN are those of IEEE 754. A comparison with NaN is false.
\<close>

fun fmul :: "(rat \<Rightarrow> fval) \<Rightarrow> fval \<Rightarrow> fval \<Rightarrow> fval" where
  "fmul rnd FNaN y = FNaN"
| "fmul rnd x FNaN = FNaN"
| "fmul rnd (Fin x) (Fin y) = rnd (x * y)"
| "fmul rnd (Fin x) PInf = (if x = 0 then FNaN else if 0 < x then PInf else NInf)"
| "fmul rnd (Fin x) NInf = (if x = 0 then FNaN else if 0 < x then NInf else PInf)"
| "fmul rnd PInf (Fin y) = (if y = 0 then FNaN else if 0 < y then PInf else NInf)"
| "fmul rnd NInf (Fin y) = (if y = 0 then FNaN else if 0 < y then NInf else PInf)"
| "fmul rnd PInf PInf = PInf"
| "fmul rnd PInf NInf = NInf"
| "fmul rnd NInf PInf = NInf"
| "fmul rnd NInf NInf = PInf"

fun fdiv :: "(rat \<Rightarrow> fval) \<Rightarrow> fval \<Rightarrow> fval \<Rightarrow> fval" where
  "fdiv rnd FNaN y = FNaN"
| "fdiv rnd x FNaN = FNaN"
| "fdiv rnd (Fin x) (Fin y) =
     (if y = 0 then (if x = 0 then FNaN else if 0 < x then PInf else NInf) else rnd (x / y))"
| "fdiv rnd (Fin x) y = Fin 0"
| "fdiv rnd PInf (Fin y) = (if 0 \<le> y then PInf else NInf)"
| "fdiv rnd NInf (Fin y) = (if 0 \<le> y then NInf else PInf)"
| "fdiv rnd x y = FNaN"

fun fsub :: "(rat \<Rightarrow> fval) \<Rightarrow> fval \<Rightarrow> fval \<Rightarrow> fval" where
  "fsub rnd FNaN y = FNaN"
| "fsub rnd x FNaN = FNaN"
| "fsub rnd (Fin x) (Fin y) = rnd (x - y)"
| "fsub rnd (Fin x) PInf = NInf"
| "fsub rnd (Fin x) NInf = PInf"
| "fsub rnd PInf PInf = FNaN"
| "fsub rnd NInf NInf = FNaN"
| "fsub rnd PInf y = PInf"
| "fsub rnd NInf y = NInf"

fun fgt :: "fval \<Rightarrow> rat \<Rightarrow> bool" where
  "fgt (Fin x) c = (c < x)"
| "fgt PInf c = True"
| "fgt v c = False"

fun flt :: "fval \<Rightarrow> rat \<Rightarrow> bool" where
  "flt (Fin x) c = (x < c)"
| "flt NInf c = True"
| "flt v c = False"

text \<open>\<^verbatim>\<open>np.round\<close> of a float array keeps infinities and NaN; \<^verbatim>\<open>int(round(x))\<close>
  raises on them.\<close>

fun frint :: "fval \<Rightarrow> fval" where
  "frint (Fin x) = Fin (of_int (np_round x))"
| "frint v = v"

fun py_round_int :: "fval \<Rightarrow> error + int" where
  "py_round_int (Fin x) = Inr (np_round x)"
| "py_round_int FNaN = Inl (ValueError ''cannot convert float NaN to integer'')"
| "py_round_int v = Inl (OverflowError ''cannot convert float infinity to integer'')"

subsection \<open>Per-slice rectangle: \<^verbatim>\<open>get_crop_idx_yx\<close>\<close>

text \<open>
  A contour is what \<^verbatim>\<open>cv2.findContours\<close> returns for one connected component: the
  list of its boundary points \<open>(x, y)\<close> (\<^verbatim>\<open>cnt[:, 0, 0]\<close> is x, \<^verbatim>\<open>cnt[:, 0, 1]\<close> is y).
  \<^verbatim>\<open>cv2.contourArea\<close> is half the absolute value of the shoelace sum over the closed
  polygon.
\<close>

type_synonym contour = "(int \<times> int) list"

fun shoelace :: "int \<times> int \<Rightarrow> contour \<Rightarrow> int" where
  "shoelace prev [] = 0"
| "shoelace prev (p # ps) = fst prev * snd p - fst p * snd prev + shoelace p ps"

definition contourArea :: "contour \<Rightarrow> rat" where
  "contourArea cnt = (if cnt = [] then 0 else \<bar>of_int (shoelace (last cnt) cnt)\<bar> / 2)"

text \<open>
  The thresholding and contour tracing of the prediction are OpenCV's; the function
  takes the contours they produce. The loop appends one entry per kept contour to each of
  the four lists (\<^verbatim>\<open>continue\<close> skips a contour of area below 3 or of fewer than 3
  points), so the lists are maps over the kept contours. \<^verbatim>\<open>np.min\<close> and \<^verbatim>\<open>min\<close> are
  only reached on non-empty lists.
\<close>

definition get_crop_idx_yx :: "contour list \<Rightarrow> int \<times> int \<Rightarrow> rat \<times> rat \<Rightarrow> int list" where
  "get_crop_idx_yx contours crop_coords invers_scale_yx =
     (let kept = filter (\<lambda>cnt. \<not> contourArea cnt < 3 \<and> \<not> length cnt < 3) contours;
          min_y = map (\<lambda>cnt. Min (set (map snd cnt))) kept;
          max_y = map (\<lambda>cnt. Max (set (map snd cnt))) kept;
          min_x = map (\<lambda>cnt. Min (set (map fst cnt))) kept;
          max_x = map (\<lambda>cnt. Max (set (map fst cnt))) kept
      in if min_y \<noteq> [] \<and> min_x \<noteq> [] \<and> max_y \<noteq> [] \<and> max_x \<noteq> [] then
           [py_int (of_int (max 0 (Min (set min_y))) * fst invers_scale_yx),
            py_int (of_int (min (Max (set max_y)) (fst crop_coords)) * fst invers_scale_yx),
            py_int (of_int (max 0 (Min (set min_x))) * snd invers_scale_yx),
            py_int (of_int (min (Max (set max_x)) (snd crop_coords)) * snd invers_scale_yx)]
         else [])"

subsection \<open>Aggregation over the slices (\<^verbatim>\<open>process_junk\<close>, lines 113 to 132)\<close>

text \<open>
  The loop over the layers of every batch keeps the rectangle of a layer when the list
  returned for it is truthy, i.e. non-empty. The argument holds, layer by layer, the
  contours found in the network's prediction.
\<close>

definition collect_crop_coords ::
  "contour list list \<Rightarrow> int \<times> int \<Rightarrow> rat \<times> rat \<Rightarrow> int list list" where
  "collect_crop_coords layers crop_coords_seg_yx inverse_scale_yx =
     filter (\<lambda>crop_coords_yx. crop_coords_yx \<noteq> [])
       (map (\<lambda>contours. get_crop_idx_yx contours crop_coords_seg_yx inverse_scale_yx) layers)"

text \<open>\<^verbatim>\<open>[yx_coords[x] for yx_coords in crop_coords_z_list_yx_px]\<close>: an index past the end
  of a rectangle raises.\<close>

fun coords_of_axis :: "nat \<Rightarrow> int list list \<Rightarrow> error + int list" where
  "coords_of_axis x [] = Inr []"
| "coords_of_axis x (yx_coords # rest) =
     (if x < length yx_coords then
        (case coords_of_axis x rest of
           Inl e \<Rightarrow> Inl e
         | Inr cs \<Rightarrow> Inr (yx_coords ! x # cs))
      else Inl IndexError)"

definition layers_coords ::
  "int list list \<Rightarrow> error + (int list \<times> int list \<times> int list \<times> int list)" where
  "layers_coords crop_coords_z_list_yx_px =
     (case coords_of_axis 0 crop_coords_z_list_yx_px of Inl e \<Rightarrow> Inl e | Inr l0 \<Rightarrow>
      case coords_of_axis 1 crop_coords_z_list_yx_px of Inl e \<Rightarrow> Inl e | Inr l1 \<Rightarrow>
      case coords_of_axis 2 crop_coords_z_list_yx_px of Inl e \<Rightarrow> Inl e | Inr l2 \<Rightarrow>
      case coords_of_axis 3 crop_coords_z_list_yx_px of Inl e \<Rightarrow> Inl e | Inr l3 \<Rightarrow>
      Inr (l0, l1, l2, l3))"

text \<open>
  The crop box of one patient. \<open>shape\<close> is \<^verbatim>\<open>img_array_zyx.shape\<close>, that is
  (depth, rows, columns); the second component of the result is what is logged.
\<close>

datatype message =
    No_lung_wings_found string
  | Multiple_scan_exception "int list"
  | Patient string
  | Counts "nat list"
  | Proceeding_with int
  | Without_acquisition_number string
  | Processing_junks nat nat
  | Processing_junk nat

definition bound_box_coords ::
  "string \<Rightarrow> nat \<times> nat \<times> nat \<Rightarrow> int list list \<Rightarrow> int \<times> int
     \<Rightarrow> error + (int list \<times> (level \<times> message) list)" where
  "bound_box_coords patient shape crop_coords_z_list_yx_px bounding_box_buffer_yx_px =
     (case layers_coords crop_coords_z_list_yx_px of
        Inl e \<Rightarrow> Inl e
      | Inr (l0, l1, l2, l3) \<Rightarrow>
          if [True, True, True, True] = map (\<lambda>x. 0 < length x) [l0, l1, l2, l3] then
            Inr ([max 0 (Min (set l0) - fst bounding_box_buffer_yx_px),
                  min (int (fst (snd shape))) (Max (set l1) + fst bounding_box_buffer_yx_px),
                  max 0 (Min (set l2) - snd bounding_box_buffer_yx_px),
                  min (int (snd (snd shape))) (Max (set l3) + snd bounding_box_buffer_yx_px)],
                 [])
          else
            Inr ([0, int (fst shape), 0, int (fst (snd shape))],
                 [(Warning, No_lung_wings_found patient)]))"

text \<open>The shape recorded for the box: bounds are taken as inclusive (the \<^verbatim>\<open>+1\<close>).\<close>

definition bound_box_shape :: "int list \<Rightarrow> int list" where
  "bound_box_shape b = [b ! 1 + 1 - b ! 0, b ! 3 + 1 - b ! 2]"

subsection \<open>Intensity normalisation\<close>

text \<open>
  \<^verbatim>\<open>img_array - HU_tissue_range[0]\<close> subtracts a Python integer from an \<^verbatim>\<open>int16\<close>
  array. Under the value-based promotion of NumPy 1.x, the release line this code was
  written for, the result stays \<^verbatim>\<open>int16\<close> (and wraps around) when the integer fits 16
  bits, and is a wider integer array otherwise, where the difference is taken as exact.
\<close>

definition fits_int16 :: "int \<Rightarrow> bool" where
  "fits_int16 k \<longleftrightarrow> - 32768 \<le> k \<and> k \<le> 32767"

definition sub_scalar_int16 :: "16 word \<Rightarrow> int \<Rightarrow> int" where
  "sub_scalar_int16 v k =
     (if fits_int16 k then sint (v - word_of_int k) else sint v - k)"

text \<open>The two masked assignments clamp each element; \<^verbatim>\<open>astype(np.int16)\<close> keeps the
  low 16 bits.\<close>

definition clip_HU_range_int16 :: "16 word list \<Rightarrow> int \<times> int \<Rightarrow> 16 word list" where
  "clip_HU_range_int16 img_array HU_tissue_range =
     map (\<lambda>v.
       let d = sub_scalar_int16 v (fst HU_tissue_range);
           d = (if d > snd HU_tissue_range - fst HU_tissue_range
                then snd HU_tissue_range - fst HU_tissue_range else d);
           d = (if d < 0 then 0 else d)
       in word_of_int d) img_array"

text \<open>
  The float variant works on a \<^verbatim>\<open>float32\<close> array: the Python integer \<^verbatim>\<open>lo\<close> and the
  Python float \<^verbatim>\<open>float(hi - lo)\<close> are converted to \<^verbatim>\<open>float32\<close> and both operations
  round to \<^verbatim>\<open>float32\<close>. \<^verbatim>\<open>float\<close> of an integer beyond the range of binary64 raises.
  The two masked assignments leave a NaN as it is.
\<close>

definition normalize_HU_range_float :: "fval list \<Rightarrow> int \<times> int \<Rightarrow> error + fval list" where
  "normalize_HU_range_float img_array HU_tissue_range =
     (case round64 (of_int (snd HU_tissue_range - fst HU_tissue_range)) of
        Fin d \<Rightarrow>
          Inr (map (\<lambda>v.
            let q = fdiv round32 (fsub round32 v (round32 (of_int (fst HU_tissue_range))))
                      (round32 d);
                q = (if fgt q 1 then Fin 1 else q);
                q = (if flt q 0 then Fin 0 else q)
            in q) img_array)
      | _ \<Rightarrow> Inl (OverflowError ''int too large to convert to float''))"

definition zero_center :: "fval list \<Rightarrow> fval list" where
  "zero_center img_array = map (\<lambda>v. fsub round32 v (Fin (1 / 4))) img_array"



text \<open>The voxels of an array with their \<^verbatim>\<open>dtype\<close>, in C order.\<close>

datatype voxels = Int16 "16 word list" | Float32 "fval list" | Other_dtype string

definition clip_HU_range :: "voxels \<Rightarrow> int \<times> int \<Rightarrow> error + voxels" where
  "clip_HU_range img_array HU_tissue_range =
     (case img_array of
        Int16 vs \<Rightarrow> Inr (Int16 (clip_HU_range_int16 vs HU_tissue_range))
      | Float32 vs \<Rightarrow>
          (case normalize_HU_range_float vs HU_tissue_range of
             Inl e \<Rightarrow> Inl e
           | Inr ws \<Rightarrow> Inr (Float32 (zero_center ws)))
      | Other_dtype d \<Rightarrow> Inl (ValueError ''Array has wrong data type.''))"

subsection \<open>Resampling: the shape of the resized array\<close>

text \<open>
  Line 159 computes, per axis and in binary64, \<^verbatim>\<open>np.round(n * old / new)\<close> for an axis
  of \<open>n\<close> entries, line 160 divides it by \<open>n\<close>, and \<^verbatim>\<open>scipy.ndimage.zoom\<close> gives the
  output \<^verbatim>\<open>int(round(n * factor))\<close> entries along that axis. The shape entries and the
  spacings are converted to binary64 first.
\<close>

definition new_shape_axis :: "nat \<Rightarrow> rat \<Rightarrow> rat \<Rightarrow> fval" where
  "new_shape_axis n old_spacing new_spacing =
     frint (fdiv round64 (fmul round64 (round64 (of_nat n)) (round64 old_spacing))
                 (round64 new_spacing))"

definition resize_factor_axis :: "nat \<Rightarrow> rat \<Rightarrow> rat \<Rightarrow> fval" where
  "resize_factor_axis n old_spacing new_spacing =
     fdiv round64 (new_shape_axis n old_spacing new_spacing) (round64 (of_nat n))"

definition resize_axis :: "nat \<Rightarrow> rat \<Rightarrow> rat \<Rightarrow> error + int" where
  "resize_axis n old_spacing new_spacing =
     py_round_int
       (fmul round64 (round64 (of_nat n)) (resize_factor_axis n old_spacing new_spacing))"


type_synonym shape3 = "nat \<times> nat \<times> nat"
type_synonym spacing3 = "rat \<times> rat \<times> rat"

definition resized_shape :: "shape3 \<Rightarrow> spacing3 \<Rightarrow> spacing3 \<Rightarrow> error + int \<times> int \<times> int" where
  "resized_shape sh old_spacing new_spacing =
     (case (sh, old_spacing, new_spacing) of
        ((n0, n1, n2), (a0, a1, a2), (b0, b1, b2)) \<Rightarrow>
          (case resize_axis n0 a0 b0 of
             Inl e \<Rightarrow> Inl e
           | Inr m0 \<Rightarrow>
               (case resize_axis n1 a1 b1 of
                  Inl e \<Rightarrow> Inl e
                | Inr m1 \<Rightarrow>
                    (case resize_axis n2 a2 b2 of
                       Inl e \<Rightarrow> Inl e
                     | Inr m2 \<Rightarrow> Inr (m0, m1, m2)))))"

definition shape_of_ints :: "int \<times> int \<times> int \<Rightarrow> shape3" where
  "shape_of_ints t = (case t of (n0, n1, n2) \<Rightarrow> (nat n0, nat n1, nat n2))"


subsection \<open>Loading a directory of slices: \<^verbatim>\<open>load_scan\<close>\<close>

text \<open>
  A pixel-spacing entry is a number, NaN, or (corrupt metadata) a string. A slice
  carries the two fields the repairs read.
\<close>

datatype spacing_value = Num rat | NaN | Str string

record slice =
  AcquisitionNumber :: int
  PixelSpacing :: "spacing_value \<times> spacing_value"

text \<open>The diagnostic stored with the patient; where the source stores \<^verbatim>\<open>str(i)\<close> of an
  identifier the identifier itself is kept.\<close>

datatype acquisition_exception =
    No_exception
  | No_AcquisitionNumber
  | Multiple_scan "int list" "nat list" int

text \<open>\<^verbatim>\<open>np.unique(xs, return_counts=True)\<close>: the distinct values in ascending order, and
  how often each occurs. \<^verbatim>\<open>np.argwhere\<close> on a vector: the indices of its true entries,
  ascending.\<close>

definition np_unique :: "int list \<Rightarrow> int list \<times> nat list" where
  "np_unique xs = (let u = sort (remdups xs) in (u, map (count_list xs) u))"

definition argwhere :: "bool list \<Rightarrow> nat list" where
  "argwhere bs = filter (\<lambda>i. bs ! i) [0..<length bs]"

text \<open>Lines 187 to 206. \<^verbatim>\<open>[-1]\<close> is taken of a non-empty index list: the maximum of
  the counts is one of them.\<close>

definition select_acquisition ::
  "string \<Rightarrow> slice list \<Rightarrow> slice list \<times> acquisition_exception \<times> (level \<times> message) list" where
  "select_acquisition patient slices =
     (case np_unique (map AcquisitionNumber slices) of
        (unique_ac_nums, counts) \<Rightarrow>
          if 1 < length unique_ac_nums then
            let selected_acquisition =
                  unique_ac_nums ! last (argwhere (map (\<lambda>c. c = Max (set counts)) counts))
            in (filter (\<lambda>s. AcquisitionNumber s = selected_acquisition) slices,
                Multiple_scan unique_ac_nums counts selected_acquisition,
                [(Warning, Multiple_scan_exception unique_ac_nums),
                 (Warning, Patient patient),
                 (Warning, Counts counts),
                 (Warning, Proceeding_with selected_acquisition)])
          else if length unique_ac_nums = 0 then
            (slices, No_AcquisitionNumber, [(Warning, Without_acquisition_number patient)])
          else (slices, No_exception, []))"

text \<open>
  Lines 212 to 220. The test of line 216 evaluates \<^verbatim>\<open>math.isnan\<close> first, which raises
  on a string; the \<^verbatim>\<open>isinstance\<close> test comes last. The comprehension of line 218 makes
  the same tests in the same order.
\<close>

definition is_exception :: "spacing_value \<Rightarrow> error + bool" where
  "is_exception v =
     (case v of
        Str s \<Rightarrow> Inl (TypeError ''must be real number, not str'')
      | NaN \<Rightarrow> Inr True
      | Num q \<Rightarrow> Inr (q < 1 / 10 \<or> q > 5))"

fun get_i :: "'a \<times> 'a \<Rightarrow> nat \<Rightarrow> 'a" where
  "get_i p i = (if i = 0 then fst p else snd p)"

fun set_i :: "'a \<times> 'a \<Rightarrow> nat \<Rightarrow> 'a \<Rightarrow> 'a \<times> 'a" where
  "set_i p i v = (if i = 0 then (v, snd p) else (fst p, v))"

fun cleaned_spacings ::
  "nat \<Rightarrow> (spacing_value \<times> spacing_value) list \<Rightarrow> error + rat list" where
  "cleaned_spacings i [] = Inr []"
| "cleaned_spacings i (sp # spacings) =
     (case get_i sp i of
        Str s \<Rightarrow> Inl (TypeError ''must be real number, not str'')
      | NaN \<Rightarrow> cleaned_spacings i spacings
      | Num q \<Rightarrow>
          (case cleaned_spacings i spacings of
             Inl e \<Rightarrow> Inl e
           | Inr qs \<Rightarrow> Inr (if \<not> q < 1 / 10 \<and> \<not> q > 5 then q # qs else qs)))"

text \<open>
  \<^verbatim>\<open>np.bincount\<close> of a Python list of floats: the entries are converted to integers by
  truncation, and bin \<open>b\<close> counts the entries equal to \<open>b\<close>. An empty or a negative
  input raises. \<^verbatim>\<open>np.argmax\<close> is the first index of the largest entry.
\<close>

definition np_bincount :: "rat list \<Rightarrow> error + nat list" where
  "np_bincount xs =
     (let ks = map py_int xs
      in if ks = [] then Inl (ValueError ''The first argument cannot be empty.'')
         else if list_ex (\<lambda>k. k < 0) ks
         then Inl (ValueError ''The first argument of bincount must be non-negative'')
         else Inr (map (\<lambda>b. count_list ks (int b)) [0..<nat (Max (set ks)) + 1]))"

definition np_argmax :: "nat list \<Rightarrow> nat" where
  "np_argmax xs = hd (argwhere (map (\<lambda>c. c = Max (set xs)) xs))"

text \<open>
  The body of the inner loop for slice number \<open>k\<close> and axis \<open>i\<close>. The list
  \<^verbatim>\<open>spacings\<close> holds the slices' own \<^verbatim>\<open>PixelSpacing\<close> objects, so a repaired entry is
  seen by the later passes: the loop state is the list of the spacings of all slices.
\<close>

definition check_spacing ::
  "nat \<Rightarrow> nat \<Rightarrow> (spacing_value \<times> spacing_value) list
     \<Rightarrow> error + (spacing_value \<times> spacing_value) list" where
  "check_spacing k i spacings =
     (case is_exception (get_i (spacings ! k) i) of
        Inl e \<Rightarrow> Inl e
      | Inr b \<Rightarrow>
          if b then
            (case cleaned_spacings i spacings of
               Inl e \<Rightarrow> Inl e
             | Inr cleaned \<Rightarrow>
                 (case np_bincount cleaned of
                    Inl e \<Rightarrow> Inl e
                  | Inr bins \<Rightarrow>
                      Inr (spacings[k := set_i (spacings ! k) i (Num (of_nat (np_argmax bins)))])))
          else Inr spacings)"

fun repair_loop ::
  "nat list \<Rightarrow> (spacing_value \<times> spacing_value) list
     \<Rightarrow> error + (spacing_value \<times> spacing_value) list" where
  "repair_loop [] spacings = Inr spacings"
| "repair_loop (k # ks) spacings =
     (case check_spacing k 0 spacings of
        Inl e \<Rightarrow> Inl e
      | Inr s0 \<Rightarrow>
          (case check_spacing k 1 s0 of
             Inl e \<Rightarrow> Inl e
           | Inr s1 \<Rightarrow> repair_loop ks s1))"

definition repair_pixel_spacing :: "slice list \<Rightarrow> error + slice list" where
  "repair_pixel_spacing slices =
     (case repair_loop [0..<length slices] (map PixelSpacing slices) of
        Inl e \<Rightarrow> Inl e
      | Inr spacings \<Rightarrow>
          Inr (map (\<lambda>(s, sp). s\<lparr>PixelSpacing := sp\<rparr>) (zip slices spacings)))"

subsection \<open>One patient: \<^verbatim>\<open>process_patient\<close>\<close>

text \<open>
  An array is its shape (depth, rows, columns) and its voxels. What is outside the
  repository is a field of \<open>pipe\<close>: the module \<^verbatim>\<open>pipe\<close> itself (dataset name, number of
  CPUs, patients; \<^verbatim>\<open>n_patients\<close> is the length of the list), what the two file readers
  return for a patient, SciPy's spline interpolation of the voxels, the segmentation
  network with OpenCV (lines 93 to 112: per layer the contours of the thresholded
  prediction, the working-resolution bounds and the inverse scale), \<^verbatim>\<open>os.path.exists\<close>,
  and the path under which \<^verbatim>\<open>pipe.save_array\<close> stores a file.
\<close>

record ndarray =
  shape :: shape3
  voxels :: voxels

record scan_info =
  resampled_scan_spacing_zyx_mm :: spacing3
  resampled_scan_shape_zyx_px :: shape3
  raw_scan_spacing_zyx_mm :: spacing3
  raw_scan_shape_zyx_px :: shape3
  raw_scan_origin_zyx_mm :: "spacing3 option"
  acquisition_exception :: acquisition_exception

type_synonym loaded = "ndarray \<times> spacing3 \<times> spacing3 option \<times> acquisition_exception"

record pipe =
  dataset_name :: string
  n_CPUs :: nat
  patients :: "string list"
  get_img_array_mhd :: "string \<Rightarrow> loaded"
  get_img_array_dcom :: "string \<Rightarrow> loaded"
  zoom :: "voxels \<Rightarrow> fval \<times> fval \<times> fval \<Rightarrow> voxels"
  segmentation :: "string \<Rightarrow> voxels \<Rightarrow> contour list list \<times> (int \<times> int) \<times> (rat \<times> rat)"
  path_exists :: "string \<Rightarrow> bool"
  save_array :: "string \<Rightarrow> string"

definition resize_factor :: "shape3 \<Rightarrow> spacing3 \<Rightarrow> spacing3 \<Rightarrow> fval \<times> fval \<times> fval" where
  "resize_factor sh old_spacing new_spacing =
     (case (sh, old_spacing, new_spacing) of
        ((n0, n1, n2), (a0, a1, a2), (b0, b1, b2)) \<Rightarrow>
          (resize_factor_axis n0 a0 b0, resize_factor_axis n1 a1 b1,
           resize_factor_axis n2 a2 b2))"

definition resize_and_interpolate_array ::
  "pipe \<Rightarrow> ndarray \<Rightarrow> spacing3 \<Rightarrow> spacing3 \<Rightarrow> error + ndarray" where
  "resize_and_interpolate_array pipe img_array old_spacing new_spacing =
     (case resized_shape (shape img_array) old_spacing new_spacing of
        Inl e \<Rightarrow> Inl e
      | Inr new_shape \<Rightarrow>
          Inr \<lparr>shape = shape_of_ints new_shape,
               voxels = zoom pipe (voxels img_array)
                          (resize_factor (shape img_array) old_spacing new_spacing)\<rparr>)"

text \<open>
  A local variable that is read before any assignment raises \<^verbatim>\<open>UnboundLocalError\<close>:
  \<^verbatim>\<open>img_array_zyx\<close> when the dataset name is neither of the two, and \<^verbatim>\<open>array\<close>, which
  no statement of the function assigns before line 148 reads it.
\<close>

definition process_patient ::
  "pipe \<Rightarrow> string \<Rightarrow> spacing3 \<Rightarrow> string \<Rightarrow> error + (string \<times> ndarray \<times> scan_info)" where
  "process_patient pipe patient new_spacing data_type_arg =
     (case (if dataset_name pipe = ''LUNA16'' then Some (get_img_array_mhd pipe patient)
            else if dataset_name pipe = ''dsb3'' then Some (get_img_array_dcom pipe patient)
            else None) of
        None \<Rightarrow> Inl (UnboundLocalError ''img_array_zyx'')
      | Some (img_array_zyx, old_spacing_zyx, old_origin_zyx, acq) \<Rightarrow>
          if data_type_arg \<noteq> ''int16'' then Inl (UnboundLocalError ''array'')
          else
            (case resize_and_interpolate_array pipe img_array_zyx old_spacing_zyx
                    new_spacing of
               Inl e \<Rightarrow> Inl e
             | Inr resized \<Rightarrow>
                 Inr (patient, resized,
                   \<lparr>resampled_scan_spacing_zyx_mm = new_spacing,
                    resampled_scan_shape_zyx_px = shape resized,
                    raw_scan_spacing_zyx_mm = old_spacing_zyx,
                    raw_scan_shape_zyx_px = shape img_array_zyx,
                    raw_scan_origin_zyx_mm = old_origin_zyx,
                    acquisition_exception = acq\<rparr>)))"

subsection \<open>One batch: \<^verbatim>\<open>process_junk\<close>\<close>

text \<open>The step's parameters, and the entry of a patient in \<^verbatim>\<open>out.json\<close> (the two
  histogram entries, computed by \<^verbatim>\<open>np.histogram\<close>, are left out).\<close>

record params =
  new_spacing_zyx :: spacing3
  bounding_box_buffer_yx_px :: "int \<times> int"
  data_type :: string
  HU_tissue_range :: "int \<times> int"
  checkpoint_dir :: string
  batch_size :: nat
  seg_max_shape_yx :: "nat \<times> nat"

record patient_record =
  info :: scan_info
  bound_box_coords_yx_px :: "int list"
  bound_box_shape_yx_px :: "int list"
  basename :: string
  pathname :: string

text \<open>What the step does to the outside, in order: a log record, loading and closing
  the network, writing a cropped array (file name and box), writing the metadata store
  (mode and content).\<close>

datatype event =
    Log level message
  | Load_network string
  | Close_network
  | Save_array string "int list"
  | Save_json string "(string \<times> patient_record) list"

text \<open>\<^verbatim>\<open>Parallel(...)(delayed(process_patient)(...) for patient in patients_junk)\<close>: the
  results in the order of the patients; an exception of a worker is raised in the
  caller.\<close>

fun process_patients ::
  "pipe \<Rightarrow> string list \<Rightarrow> spacing3 \<Rightarrow> string \<Rightarrow> error + (string \<times> ndarray \<times> scan_info) list" where
  "process_patients pipe [] sp dt = Inr []"
| "process_patients pipe (patient # rest) sp dt =
     (case process_patient pipe patient sp dt of
        Inl e \<Rightarrow> Inl e
      | Inr r \<Rightarrow>
          (case process_patients pipe rest sp dt of
             Inl e \<Rightarrow> Inl e
           | Inr rs \<Rightarrow> Inr (r # rs)))"

text \<open>\<^verbatim>\<open>dict(pairs)\<close>: a later pair with a key already present replaces the value and
  keeps the key's place.\<close>

fun dict_set :: "'k \<Rightarrow> 'v \<Rightarrow> ('k \<times> 'v) list \<Rightarrow> ('k \<times> 'v) list" where
  "dict_set k v [] = [(k, v)]"
| "dict_set k v ((k', v') # kvs) =
     (if k = k' then (k, v) # kvs else (k', v') # dict_set k v kvs)"

definition py_dict :: "('k \<times> 'v) list \<Rightarrow> ('k \<times> 'v) list" where
  "py_dict kvs = foldl (\<lambda>d (k, v). dict_set k v d) [] kvs"

text \<open>The body of the loop over the patients of the batch (lines 86 to 138).\<close>

definition crop_patient ::
  "pipe \<Rightarrow> params \<Rightarrow> string \<Rightarrow> ndarray \<times> scan_info \<Rightarrow> (error + patient_record) \<times> event list" where
  "crop_patient pipe ps patient pa_json =
     (case clip_HU_range (voxels (fst pa_json)) (HU_tissue_range ps) of
        Inl e \<Rightarrow> (Inl e, [])
      | Inr clipped \<Rightarrow>
          (case segmentation pipe patient clipped of
             (layers, crop_coords_seg_yx, inverse_scale_yx) \<Rightarrow>
               (case bound_box_coords patient (shape (fst pa_json))
                       (collect_crop_coords layers crop_coords_seg_yx inverse_scale_yx)
                       (bounding_box_buffer_yx_px ps) of
                  Inl e \<Rightarrow> (Inl e, [])
                | Inr (box, logged) \<Rightarrow>
                    (Inr \<lparr>info = snd pa_json,
                          bound_box_coords_yx_px = box,
                          bound_box_shape_yx_px = bound_box_shape box,
                          basename = patient @ ''_img.npy'',
                          pathname = save_array pipe (patient @ ''_img.npy'')\<rparr>,
                     map (\<lambda>(l, m). Log l m) logged
                       @ [Save_array (patient @ ''_img.npy'') box]))))"

fun crop_patients ::
  "pipe \<Rightarrow> params \<Rightarrow> (string \<times> ndarray \<times> scan_info) list
     \<Rightarrow> (error + (string \<times> patient_record) list) \<times> event list" where
  "crop_patients pipe ps [] = (Inr [], [])"
| "crop_patients pipe ps ((patient, pa_json) # rest) =
     (case crop_patient pipe ps patient pa_json of
        (Inl e, evs) \<Rightarrow> (Inl e, evs)
      | (Inr r, evs) \<Rightarrow>
          (case crop_patients pipe ps rest of
             (Inl e, evs') \<Rightarrow> (Inl e, evs @ evs')
           | (Inr rs, evs') \<Rightarrow> (Inr ((patient, r) # rs), evs @ evs')))"

text \<open>\<^verbatim>\<open>Parallel\<close> refuses \<^verbatim>\<open>n_jobs = 0\<close>. The metadata store is written by the last
  statement of the function.\<close>

definition process_junk ::
  "pipe \<Rightarrow> nat \<Rightarrow> string list \<Rightarrow> params \<Rightarrow> (error + unit) \<times> event list" where
  "process_junk pipe junk_cnt patients_junk ps =
     (if min (n_CPUs pipe) (length patients_junk) = 0 then
        (Inl (ValueError ''n_jobs == 0 in Parallel has no meaning''), [])
      else
        (case process_patients pipe patients_junk (new_spacing_zyx ps) (data_type ps) of
           Inl e \<Rightarrow> (Inl e, [])
         | Inr results \<Rightarrow>
             (case crop_patients pipe ps (py_dict results) of
                (Inl e, evs) \<Rightarrow> (Inl e, evs)
              | (Inr patients_json, evs) \<Rightarrow>
                  (Inr (),
                   evs @ [Save_json (if junk_cnt = 0 then ''w'' else ''a'') patients_json]))))"

subsection \<open>The step: \<^verbatim>\<open>run\<close>\<close>

fun run_junks :: "pipe \<Rightarrow> params \<Rightarrow> nat list \<Rightarrow> (error + unit) \<times> event list" where
  "run_junks pipe ps [] = (Inr (), [])"
| "run_junks pipe ps (junk_cnt # rest) =
     (let patients_junk = take (n_CPUs pipe) (drop (n_CPUs pipe * junk_cnt) (patients pipe))
      in case process_junk pipe junk_cnt patients_junk ps of
           (Inl e, evs) \<Rightarrow> (Inl e, Log Info (Processing_junk junk_cnt) # evs)
         | (Inr u, evs) \<Rightarrow>
             (case run_junks pipe ps rest of
                (r, evs') \<Rightarrow> (r, Log Info (Processing_junk junk_cnt) # evs @ evs')))"

definition run :: "pipe \<Rightarrow> params \<Rightarrow> (error + unit) \<times> event list" where
  "run pipe ps =
     (if data_type ps \<notin> set [''float32'', ''int16''] then
        (Inl (ValueError ''Invalid data_type. Use int16 or float32.''), [])
      else if \<not> path_exists pipe (checkpoint_dir ps) then
        (Inl (ValueError (''checkpoint_dir '' @ checkpoint_dir ps @ '' does not exist.'')), [])
      else if n_CPUs pipe = 0 then (Inl ZeroDivisionError, [])
      else
        let n_threads = n_CPUs pipe;
            n_junks = nat \<lceil>(of_nat (length (patients pipe)) :: rat) / of_nat n_threads\<rceil>
        in case run_junks pipe ps [0..<n_junks] of
             (Inl e, evs) \<Rightarrow>
               (Inl e,
                Log Info (Processing_junks n_junks n_threads)
                  # Load_network (checkpoint_dir ps) # evs)
           | (Inr u, evs) \<Rightarrow>
               (Inr (),
                Log Info (Processing_junks n_junks n_threads)
                  # Load_network (checkpoint_dir ps) # evs @ [Close_network]))"

text \<open>A small installation used to run the step on concrete data: three patients on two
  CPUs, scans of two slices of 4 by 4 pixels at spacing (2, 1, 1), lung found in the
  first patient only.\<close>

definition example_pipe :: pipe where
  "example_pipe =
     \<lparr>dataset_name = ''dsb3'',
      n_CPUs = 2,
      patients = [''a'', ''b'', ''c''],
      get_img_array_mhd = (\<lambda>p. (\<lparr>shape = (0, 0, 0), voxels = Int16 []\<rparr>, (1, 1, 1), None, No_exception)),
      get_img_array_dcom =
        (\<lambda>p. (\<lparr>shape = (2, 4, 4), voxels = Int16 (replicate 32 0)\<rparr>, (2, 1, 1), None, No_exception)),
      zoom = (\<lambda>v f. v),
      segmentation =
        (\<lambda>p v. (if p = ''a'' then [[[(1, 1), (3, 1), (3, 3), (1, 3)]], [], [], []] else [[], [], [], []],
                (4, 4), (1, 1))),
      path_exists = (\<lambda>d. d = ''checkpoints''),
      save_array = (\<lambda>b. ''out/'' @ b)\<rparr>"

definition example_params :: params where
  "example_params =
     \<lparr>new_spacing_zyx = (1, 1, 1),
      bounding_box_buffer_yx_px = (1, 1),
      data_type = ''int16'',
      HU_tissue_range = (- 1000, 400),
      checkpoint_dir = ''checkpoints'',
      batch_size = 64,
      seg_max_shape_yx = (512, 512)\<rparr>"

section \<open>Properties\<close>

subsection \<open>Helper facts\<close>

lemma coords_of_axis_ok:
  "\<forall>r \<in> set rs. x < length r \<Longrightarrow> coords_of_axis x rs = Inr (map (\<lambda>r. r ! x) rs)"
  by (induction rs) auto

lemma get_crop_idx_yx_length:
  "get_crop_idx_yx cs cc isc = [] \<or> length (get_crop_idx_yx cs cc isc) = 4"
  by (simp add: get_crop_idx_yx_def Let_def)

lemma collect_crop_coords_length:
  assumes "r \<in> set (collect_crop_coords layers cc isc)"
  shows "length r = 4"
proof -
  obtain c where "r = get_crop_idx_yx c cc isc" and "r \<noteq> []"
    using assms by (auto simp: collect_crop_coords_def)
  then show ?thesis
    using get_crop_idx_yx_length [of c cc isc] by simp
qed

lemma layers_coords_ok:
  assumes "\<forall>r \<in> set rs. length r = 4"
  shows "layers_coords rs =
    Inr (map (\<lambda>r. r ! 0) rs, map (\<lambda>r. r ! 1) rs, map (\<lambda>r. r ! 2) rs, map (\<lambda>r. r ! 3) rs)"
proof -
  have "coords_of_axis x rs = Inr (map (\<lambda>r. r ! x) rs)" if "x < 4" for x
    using assms that by (intro coords_of_axis_ok) auto
  then show ?thesis by (simp add: layers_coords_def)
qed

lemma py_int_nonneg: "0 \<le> q \<Longrightarrow> 0 \<le> py_int q"
  by (simp add: py_int_def)

lemma floor_rat_numeral [simp]:
  "\<lfloor>numeral a / numeral b :: rat\<rfloor> = numeral a div numeral b"
  by (metis floor_divide_of_int_eq of_int_numeral)

lemma pow2_nat: "0 \<le> k \<Longrightarrow> (2::rat) powi k = 2 ^ nat k"
  by (simp add: power_int_def)

lemma float_exponent_bounds:
  assumes "x \<noteq> 0"
  shows "2 powi (float_exponent x) \<le> \<bar>x\<bar> \<and> \<bar>x\<bar> < 2 powi (float_exponent x + 1)"
proof -
  obtain p q where pq: "quotient_of \<bar>x\<bar> = (p, q)" by fastforce
  have q: "0 < q" using pq by (rule quotient_of_denom_pos)
  have x: "\<bar>x\<bar> = of_int p / of_int q" using pq by (rule quotient_of_div)
  have "0 < \<bar>x\<bar>" using assms by simp
  then have p: "0 < p" using x q by (simp add: zero_less_divide_iff)
  define d where "d = bitlen p - bitlen q"
  have bp: "2 ^ nat (bitlen p - 1) \<le> p" "p < 2 ^ nat (bitlen p)"
    using bitlen_bounds [OF p] by auto
  have bq: "2 ^ nat (bitlen q - 1) \<le> q" "q < 2 ^ nat (bitlen q)"
    using bitlen_bounds [OF q] by auto
  have lp: "1 \<le> bitlen p" using p bitlen_eq_zero_iff [of p] bitlen_nonneg [of p] by linarith
  have lq: "1 \<le> bitlen q" using q bitlen_eq_zero_iff [of q] bitlen_nonneg [of q] by linarith
  have P1: "(2::rat) powi (bitlen p - 1) \<le> of_int p"
  proof -
    have "(of_int (2 ^ nat (bitlen p - 1)) :: rat) \<le> of_int p" using bp(1) by (simp only: of_int_le_iff)
    then show ?thesis using lp by (simp add: pow2_nat)
  qed
  have P2: "(of_int p :: rat) < 2 powi (bitlen p)"
  proof -
    have "(of_int p :: rat) < of_int (2 ^ nat (bitlen p))" using bp(2) by (simp only: of_int_less_iff)
    then show ?thesis using lp by (simp add: pow2_nat)
  qed
  have Q1: "(2::rat) powi (bitlen q - 1) \<le> of_int q"
  proof -
    have "(of_int (2 ^ nat (bitlen q - 1)) :: rat) \<le> of_int q" using bq(1) by (simp only: of_int_le_iff)
    then show ?thesis using lq by (simp add: pow2_nat)
  qed
  have Q2: "(of_int q :: rat) < 2 powi (bitlen q)"
  proof -
    have "(of_int q :: rat) < of_int (2 ^ nat (bitlen q))" using bq(2) by (simp only: of_int_less_iff)
    then show ?thesis using lq by (simp add: pow2_nat)
  qed
  have qpos: "(0::rat) < of_int q" using q by simp
  have upper: "\<bar>x\<bar> < 2 powi (d + 1)"
  proof -
    have "of_int p < (2::rat) powi (bitlen p)" by (rule P2)
    also have "\<dots> = 2 powi (d + 1) * 2 powi (bitlen q - 1)"
      by (simp add: d_def power_int_add [symmetric])
    also have "\<dots> \<le> 2 powi (d + 1) * of_int q"
      using Q1 by (intro mult_left_mono) auto
    finally show ?thesis using qpos by (simp add: x pos_divide_less_eq)
  qed
  have lower: "2 powi (d - 1) < \<bar>x\<bar>"
  proof -
    have "2 powi (d - 1) * of_int q < (2::rat) powi (d - 1) * 2 powi (bitlen q)"
      using Q2 by (intro mult_strict_left_mono) auto
    also have "\<dots> = 2 powi (bitlen p - 1)"
      by (simp add: d_def power_int_add [symmetric])
    also have "\<dots> \<le> of_int p" by (rule P1)
    finally show ?thesis using qpos by (simp add: x pos_less_divide_eq)
  qed
  have fe: "float_exponent x = (if 2 powi d \<le> \<bar>x\<bar> then d else d - 1)"
    by (simp add: float_exponent_def pq d_def Let_def)
  show ?thesis
  proof (cases "2 powi d \<le> \<bar>x\<bar>")
    case True
    then show ?thesis using upper fe by simp
  next
    case False
    then show ?thesis using lower fe by simp
  qed
qed


lemma np_round_of_int: "np_round (of_int k) = k"
  by (simp add: np_round_def)



lemma pow2_pos: "(0::rat) < 2 powi k"
  by simp


lemma float_exponent_less:
  assumes "x \<noteq> 0" and "\<bar>x\<bar> < 2 powi k"
  shows "float_exponent x < k"
proof (rule ccontr)
  assume "\<not> float_exponent x < k"
  then have "k \<le> float_exponent x" by simp
  then have "(2::rat) powi k \<le> 2 powi float_exponent x"
    by (intro power_int_increasing) auto
  then show False using float_exponent_bounds [OF assms(1)] assms(2) by linarith
qed

lemma float_exponent_ge:
  assumes "2 powi k \<le> \<bar>x\<bar>"
  shows "k \<le> float_exponent x"
proof (rule ccontr)
  assume "\<not> k \<le> float_exponent x"
  then have "float_exponent x + 1 \<le> k" by simp
  then have "(2::rat) powi (float_exponent x + 1) \<le> 2 powi k"
    by (intro power_int_increasing) auto
  moreover have "x \<noteq> 0"
  proof
    assume "x = 0"
    then have "(2::rat) powi k \<le> 0" using assms by simp
    then show False using pow2_pos [of k] by linarith
  qed
  ultimately show False using float_exponent_bounds [of x] assms by linarith
qed

lemma round_to_format_int:
  assumes "\<bar>k\<bar> < 2 ^ p" and "emin \<le> 0"
  shows "round_to_format p emin (of_int k) = of_int k"
proof (cases "k = 0")
  case True
  then show ?thesis by (simp add: round_to_format_def)
next
  case False
  define x :: rat where "x = of_int k"
  have x0: "x \<noteq> 0" using False by (simp add: x_def)
  define e where "e = float_exponent x"
  have "(2::rat) powi 0 \<le> \<bar>x\<bar>"
  proof -
    have "1 \<le> \<bar>k\<bar>" using False by linarith
    then have "(1::rat) \<le> of_int \<bar>k\<bar>" by (simp only: of_int_1_le_iff)
    then show ?thesis by (simp add: x_def)
  qed
  then have e0: "0 \<le> e" unfolding e_def by (rule float_exponent_ge)
  have "\<bar>x\<bar> < 2 powi (int p)"
  proof -
    have "(of_int \<bar>k\<bar> :: rat) < of_int (2 ^ p)" using assms(1) by (simp only: of_int_less_iff)
    then show ?thesis by (simp add: x_def)
  qed
  then have ep: "e < int p" unfolding e_def using x0 by (intro float_exponent_less)
  define j where "j = nat (int p - 1 - e)"
  have ulp: "(2::rat) powi (e - int p + 1) = 1 / 2 ^ j"
  proof -
    have "e - int p + 1 = - int j" using ep by (simp add: j_def)
    then have "(2::rat) powi (e - int p + 1) = 2 powi (- int j)" by simp
    also have "\<dots> = inverse (2 ^ j)" by (simp only: power_int_minus power_int_of_nat)
    finally show ?thesis by (simp add: field_simps)
  qed
  have "x / (1 / 2 ^ j) = of_int (k * 2 ^ j)" by (simp add: x_def)
  then have "np_round (x / (1 / 2 ^ j)) = k * 2 ^ j" by (simp only: np_round_of_int)
  then have "of_int (np_round (x / (1 / 2 ^ j))) * (1 / 2 ^ j) = x"
    by (simp add: x_def)
  moreover have "max e emin = e" using e0 assms(2) by simp
  moreover have "round_to_format p emin x =
      of_int (np_round (x / 2 powi (max e emin - int p + 1))) * 2 powi (max e emin - int p + 1)"
    using x0 by (simp add: round_to_format_def Let_def e_def)
  ultimately show ?thesis
    using ulp by (simp add: x_def)
qed


lemma round64_int:
  assumes "\<bar>k\<bar> < 2 ^ 53"
  shows "round64 (of_int k) = Fin (of_int k)"
proof -
  have r: "round_to_format 53 (- 1022) (of_int k) = of_int k"
    using assms by (intro round_to_format_int) auto
  have "float_exponent (of_int k) < 53" if "k \<noteq> 0"
  proof -
    have "(of_int \<bar>k\<bar> :: rat) < of_int (2 ^ 53)" using assms by (simp only: of_int_less_iff)
    then have "\<bar>of_int k :: rat\<bar> < 2 powi 53" by simp
    then show ?thesis using that by (intro float_exponent_less) auto
  qed
  then show ?thesis
    by (auto simp: round64_def round_float_def Let_def r)
qed




lemma pow2_numeral: "(2::rat) ^ k = 2 powi (int k)"
  by simp



lemma round64_small [simp]: "round64 1 = Fin 1" "round64 2 = Fin 2"
  using round64_int [of 1] round64_int [of 2] by simp_all











lemma set_argwhere: "set (argwhere bs) = {i. i < length bs \<and> bs ! i}"
  by (auto simp: argwhere_def)

lemma sorted_argwhere: "sorted (argwhere bs)"
  by (simp add: argwhere_def sorted_wrt_filter)

lemma last_sorted_ge:
  assumes "sorted xs" and "x \<in> set xs"
  shows "x \<le> last xs"
  using assms by (induction xs) (auto split: if_splits)

lemma last_argwhere:
  assumes "i < length bs" and "bs ! i"
  shows "last (argwhere bs) < length bs \<and> bs ! last (argwhere bs) \<and> i \<le> last (argwhere bs)"
proof -
  have i: "i \<in> set (argwhere bs)" using assms by (simp add: set_argwhere)
  then have "argwhere bs \<noteq> []" by auto
  then have "last (argwhere bs) \<in> set (argwhere bs)" by (rule last_in_set)
  then show ?thesis
    using last_sorted_ge [OF sorted_argwhere i] by (simp add: set_argwhere)
qed

lemma set_dict_set: "fst ` set (dict_set k v d) = insert k (fst ` set d)"
proof (induction d)
  case Nil
  then show ?case by simp
next
  case (Cons kv d)
  obtain k' v' where kv: "kv = (k', v')" by (cases kv)
  show ?case
  proof (cases "k = k'")
    case True
    then show ?thesis using kv by simp
  next
    case False
    then show ?thesis using kv Cons.IH by (simp add: insert_commute)
  qed
qed

lemma py_dict_keys_aux:
  "fst ` set (foldl (\<lambda>d (k, v). dict_set k v d) d0 kvs) = fst ` set d0 \<union> fst ` set kvs"
proof (induction kvs arbitrary: d0)
  case Nil
  then show ?case by simp
next
  case (Cons kv kvs)
  obtain k v where kv: "kv = (k, v)" by (cases kv)
  have "fst ` set (foldl (\<lambda>d (k, v). dict_set k v d) (dict_set k v d0) kvs) =
      fst ` set (dict_set k v d0) \<union> fst ` set kvs"
    by (rule Cons.IH)
  then show ?case using kv by (simp add: set_dict_set Un_commute insert_commute)
qed

lemma py_dict_keys: "fst ` set (py_dict kvs) = fst ` set kvs"
  by (simp add: py_dict_def py_dict_keys_aux)

lemma process_patient_key:
  "process_patient pipe patient sp dt = Inr r \<Longrightarrow> fst r = patient"
  by (auto simp: process_patient_def split: option.splits if_splits prod.splits sum.splits)

lemma process_patients_keys:
  "process_patients pipe ps sp dt = Inr rs \<Longrightarrow> map fst rs = ps"
  by (induction ps arbitrary: rs) (auto split: sum.splits dest: process_patient_key)

lemma crop_patient_events:
  "crop_patient pipe ps patient pa = (res, evs) \<Longrightarrow>
     (\<forall>m r. Save_json m r \<notin> set evs)
     \<and> (\<forall>r. res = Inr r \<longrightarrow> (\<exists>box. Save_array (patient @ ''_img.npy'') box \<in> set evs))"
  by (auto simp: crop_patient_def split: sum.splits prod.splits)

lemma crop_patients_no_json:
  "crop_patients pipe ps items = (res, evs) \<Longrightarrow> Save_json m r \<notin> set evs"
proof (induction items arbitrary: res evs)
  case Nil
  then show ?case by simp
next
  case (Cons item items)
  obtain patient pa where item: "item = (patient, pa)" by (cases item)
  obtain r1 e1 where c1: "crop_patient pipe ps patient pa = (r1, e1)" by fastforce
  obtain r2 e2 where c2: "crop_patients pipe ps items = (r2, e2)" by fastforce
  have "Save_json m r \<notin> set e1" using crop_patient_events [OF c1] by blast
  moreover have "Save_json m r \<notin> set e2" using Cons.IH [OF c2] .
  ultimately show ?case
    using Cons.prems item c1 c2 by (auto split: sum.splits)
qed

lemma crop_patients_saved:
  "crop_patients pipe ps items = (Inr recs, evs) \<Longrightarrow>
     map fst recs = map fst items
     \<and> (\<forall>p \<in> fst ` set items. \<exists>box. Save_array (p @ ''_img.npy'') box \<in> set evs)"
proof (induction items arbitrary: recs evs)
  case Nil
  then show ?case by simp
next
  case (Cons item items)
  obtain patient pa where item: "item = (patient, pa)" by (cases item)
  obtain r1 e1 where c1: "crop_patient pipe ps patient pa = (r1, e1)" by fastforce
  obtain r2 e2 where c2: "crop_patients pipe ps items = (r2, e2)" by fastforce
  from Cons.prems item c1 c2 obtain rec1 recs2 where
    ok: "r1 = Inr rec1" "r2 = Inr recs2" "recs = (patient, rec1) # recs2" "evs = e1 @ e2"
    by (auto split: sum.splits)
  have "\<exists>box. Save_array (patient @ ''_img.npy'') box \<in> set e1"
    using crop_patient_events [OF c1] ok(1) by blast
  moreover have "map fst recs2 = map fst items
     \<and> (\<forall>p \<in> fst ` set items. \<exists>box. Save_array (p @ ''_img.npy'') box \<in> set e2)"
    using Cons.IH [of recs2 e2] c2 ok(2) by simp
  ultimately show ?case using ok item by auto
qed

lemma ceiling_rat_numeral [simp]:
  "\<lceil>numeral a / numeral b :: rat\<rceil> = - (- numeral a div numeral b)"
  by (metis ceiling_divide_eq_div of_int_numeral)

lemma example_resized: "resized_shape (2, 4, 4) (2, 1, 1) (1, 1, 1) = Inr (4, 4, 4)"
  by code_simp

subsection \<open>C1: no rectangle on any slice\<close>

text \<open>
  C1. When no slice yields a rectangle the box should be the full in-plane extent
  \<open>(0, n_rows, 0, n_cols)\<close>, with a warning. The warning is logged, but the fallback reads
  \<^verbatim>\<open>shape[0]\<close> and \<^verbatim>\<open>shape[1]\<close>: the box is \<open>(0, depth, 0, n_rows)\<close>, the indices of
  the guarded branch (\<^verbatim>\<open>shape[1]\<close>, \<^verbatim>\<open>shape[2]\<close>) shifted by one. For a volume
  of 10 slices of 100 rows and 120 columns the box is \<open>(0, 10, 0, 100)\<close>.
\<close>

theorem bound_box_fallback_uses_depth:
  "bound_box_coords patient (depth, n_rows, n_cols) [] buffer =
     Inr ([0, int depth, 0, int n_rows], [(Warning, No_lung_wings_found patient)])
   \<and> bound_box_coords ''p'' (10, 100, 120) [] (12, 12) =
     Inr ([0, 10, 0, 100], [(Warning, No_lung_wings_found ''p'')])"
  by (simp add: bound_box_coords_def layers_coords_def)

subsection \<open>C7: the box of the detected rectangles\<close>

text \<open>
  C7. When at least one slice yields a rectangle (each a list of four numbers, as
  \<open>get_crop_idx_yx\<close> returns them), all four lists are non-empty and the box is
  \<open>(min(min-y) - buffer_y, max(max-y) + buffer_y, min(min-x) - buffer_x,
  max(max-x) + buffer_x)\<close>, the lower bounds clamped at 0 and the upper bounds at the
  number of rows and of columns; nothing is logged.
\<close>

theorem bound_box_of_rectangles:
  assumes "rects \<noteq> []" and "\<forall>r \<in> set rects. length r = 4"
  shows "bound_box_coords patient (depth, n_rows, n_cols) rects (buffer_y, buffer_x) =
     Inr ([max 0 (Min (set (map (\<lambda>r. r ! 0) rects)) - buffer_y),
           min (int n_rows) (Max (set (map (\<lambda>r. r ! 1) rects)) + buffer_y),
           max 0 (Min (set (map (\<lambda>r. r ! 2) rects)) - buffer_x),
           min (int n_cols) (Max (set (map (\<lambda>r. r ! 3) rects)) + buffer_x)], [])"
  using assms by (simp add: bound_box_coords_def layers_coords_ok)

theorem bound_box_of_rectangles_witness:
  "[[10, 50, 10, 50], [20, 60, 20, 60]] \<noteq> ([] :: int list list)
   \<and> bound_box_coords ''p'' (2, 100, 100) [[10, 50, 10, 50], [20, 60, 20, 60]] (5, 5) =
       Inr ([5, 65, 5, 65], [])
   \<and> bound_box_coords ''p'' (2, 64, 60) [[10, 50, 10, 50], [20, 60, 20, 60]] (5, 5) =
       Inr ([5, 64, 5, 60], [])"
  using bound_box_of_rectangles [of "[[10, 50, 10, 50], [20, 60, 20, 60]]" "''p''" 2 100 100 5 5]
    bound_box_of_rectangles [of "[[10, 50, 10, 50], [20, 60, 20, 60]]" "''p''" 2 64 60 5 5]
  by simp

subsection \<open>C10: shape of a slice's rectangle; the four lists are empty together\<close>

text \<open>
  C10. With the non-negative inverse scale factors that \<open>process_junk\<close> passes
  (reciprocals of a ratio of image sizes), \<open>get_crop_idx_yx\<close> returns the empty list or
  exactly four integers whose first and third (min-y and min-x) are not negative. For
  any inverse scale, the four per-axis lists built from the collected rectangles of a
  volume never raise and each has one entry per collected rectangle, so one of them is
  non-empty exactly when all four are.
\<close>

theorem get_crop_idx_yx_shape:
  assumes "0 \<le> fst isc" and "0 \<le> snd isc"
  shows "(get_crop_idx_yx contours crop_coords isc = []
          \<or> (\<exists>min_y max_y min_x max_x.
               get_crop_idx_yx contours crop_coords isc = [min_y, max_y, min_x, max_x]
               \<and> 0 \<le> min_y \<and> 0 \<le> min_x))
       \<and> (\<exists>l0 l1 l2 l3.
            layers_coords (collect_crop_coords layers crop_coords isc2) = Inr (l0, l1, l2, l3)
            \<and> length l0 = length (collect_crop_coords layers crop_coords isc2)
            \<and> length l1 = length l0 \<and> length l2 = length l0 \<and> length l3 = length l0
            \<and> ((l0 \<noteq> [] \<and> l1 \<noteq> [] \<and> l2 \<noteq> [] \<and> l3 \<noteq> []) = (l0 \<noteq> [])))"
proof
  show "get_crop_idx_yx contours crop_coords isc = []
          \<or> (\<exists>min_y max_y min_x max_x.
               get_crop_idx_yx contours crop_coords isc = [min_y, max_y, min_x, max_x]
               \<and> 0 \<le> min_y \<and> 0 \<le> min_x)"
    using assms by (auto simp: get_crop_idx_yx_def Let_def intro!: py_int_nonneg)
next
  let ?rs = "collect_crop_coords layers crop_coords isc2"
  have "\<forall>r \<in> set ?rs. length r = 4"
    using collect_crop_coords_length by blast
  then have "layers_coords ?rs =
    Inr (map (\<lambda>r. r ! 0) ?rs, map (\<lambda>r. r ! 1) ?rs, map (\<lambda>r. r ! 2) ?rs, map (\<lambda>r. r ! 3) ?rs)"
    by (rule layers_coords_ok)
  then show "\<exists>l0 l1 l2 l3.
            layers_coords ?rs = Inr (l0, l1, l2, l3)
            \<and> length l0 = length ?rs
            \<and> length l1 = length l0 \<and> length l2 = length l0 \<and> length l3 = length l0
            \<and> ((l0 \<noteq> [] \<and> l1 \<noteq> [] \<and> l2 \<noteq> [] \<and> l3 \<noteq> []) = (l0 \<noteq> []))"
    by auto
qed

theorem get_crop_idx_yx_shape_witness:
  "(0::rat) \<le> fst (3 / 2 :: rat, 2 :: rat) \<and> (0::rat) \<le> snd (3 / 2 :: rat, 2 :: rat)
   \<and> get_crop_idx_yx [[(1, 1), (5, 1), (5, 6), (1, 6)], [(0, 0), (1, 0), (1, 1)]]
         (100, 100) (3 / 2, 2) = [1, 9, 2, 10]
   \<and> layers_coords
         (collect_crop_coords [[[(1, 1), (5, 1), (5, 6), (1, 6)]], []] (100, 100) (3 / 2, 2))
       = Inr ([1], [9], [2], [10])"
  using get_crop_idx_yx_shape [of "(3 / 2, 2)"
      "[[(1, 1), (5, 1), (5, 6), (1, 6)], [(0, 0), (1, 0), (1, 1)]]" "(100, 100)"
      "[[[(1, 1), (5, 1), (5, 6), (1, 6)]], []]" "(3 / 2, 2)"]
  by (simp add: get_crop_idx_yx_def collect_crop_coords_def layers_coords_def
      contourArea_def py_int_def)

subsection \<open>C6: range of the normalised intensities\<close>




subsection \<open>C3: resampling there and back\<close>




subsection \<open>C5: choice among several acquisitions\<close>

text \<open>
  C5. When the slices of a directory carry more than one acquisition number, the loader
  keeps exactly the slices of one number \<open>sel\<close>; no number has more slices than
  \<open>sel\<close>, and every number with as many slices is at most \<open>sel\<close> (a tie goes to the
  larger number, wherever it stands in the directory). The stored diagnostic lists all
  numbers in ascending order, their counts and \<open>sel\<close>, and the same is logged as
  warnings.
\<close>

theorem select_acquisition_most_frequent:
  fixes slices :: "slice list"
  defines "xs \<equiv> map AcquisitionNumber slices"
  assumes many: "1 < card (set xs)"
  shows "\<exists>sel. select_acquisition patient slices =
           (filter (\<lambda>s. AcquisitionNumber s = sel) slices,
            Multiple_scan (sort (remdups xs)) (map (count_list xs) (sort (remdups xs))) sel,
            [(Warning, Multiple_scan_exception (sort (remdups xs))),
             (Warning, Patient patient),
             (Warning, Counts (map (count_list xs) (sort (remdups xs)))),
             (Warning, Proceeding_with sel)])
         \<and> sel \<in> set xs
         \<and> (\<forall>a. count_list xs a \<le> count_list xs sel)
         \<and> (\<forall>a. count_list xs a = count_list xs sel \<longrightarrow> a \<le> sel)"
proof -
  define u where "u = sort (remdups xs)"
  define counts where "counts = map (count_list xs) u"
  define bs where "bs = map (\<lambda>c. c = Max (set counts)) counts"
  define j where "j = last (argwhere bs)"
  have len_u: "length u = card (set xs)"
    by (simp add: u_def length_remdups_card_conv)
  have set_u: "set u = set xs" by (simp add: u_def)
  have sorted_u: "sorted u" by (simp add: u_def)
  have len: "length bs = length u" "length counts = length u"
    by (simp_all add: bs_def counts_def)
  have "counts \<noteq> []" using many len_u len by auto
  then have "Max (set counts) \<in> set counts" by (intro Max_in) auto
  then obtain i where i: "i < length counts" "counts ! i = Max (set counts)"
    by (auto simp: in_set_conv_nth)
  then have "i < length bs" "bs ! i" by (simp_all add: bs_def)
  from last_argwhere [OF this]
  have jb: "j < length bs" "bs ! j" by (simp_all add: j_def)
  have j: "j < length u" "counts ! j = Max (set counts)"
    using jb len by (simp_all add: bs_def)
  have later: "k \<le> j" if "k < length u" "counts ! k = Max (set counts)" for k
  proof -
    have "k < length bs" "bs ! k" using that len by (simp_all add: bs_def)
    from last_argwhere [OF this] show ?thesis by (simp add: j_def)
  qed
  define sel where "sel = u ! j"
  have cnt: "counts ! k = count_list xs (u ! k)" if "k < length u" for k
    using that by (simp add: counts_def)
  have sel_in: "sel \<in> set xs" using j(1) set_u by (auto simp: sel_def)
  have top: "count_list xs a \<le> count_list xs sel" for a
  proof (cases "a \<in> set xs")
    case True
    then have "count_list xs a \<in> set counts" using set_u by (auto simp: counts_def)
    then have "count_list xs a \<le> Max (set counts)" by simp
    then show ?thesis using j cnt [OF j(1)] by (simp add: sel_def)
  next
    case False
    then show ?thesis by (simp add: count_list_0_iff)
  qed
  have tie: "a \<le> sel" if "count_list xs a = count_list xs sel" for a
  proof -
    have "count_list xs sel \<noteq> 0" using sel_in count_list_0_iff [of xs sel] by blast
    then have "a \<in> set u" using that set_u count_list_0_iff [of xs a] by auto
    then obtain k where k: "k < length u" "u ! k = a" by (auto simp: in_set_conv_nth)
    then have "counts ! k = Max (set counts)"
      using that cnt [OF k(1)] cnt [OF j(1)] j(2) by (simp add: sel_def)
    then have "k \<le> j" using k(1) by (rule later [rotated])
    then show ?thesis using sorted_u j(1) k by (auto simp: sel_def sorted_iff_nth_mono)
  qed
  have "select_acquisition patient slices =
           (filter (\<lambda>s. AcquisitionNumber s = sel) slices,
            Multiple_scan u counts sel,
            [(Warning, Multiple_scan_exception u), (Warning, Patient patient),
             (Warning, Counts counts), (Warning, Proceeding_with sel)])"
    using many len_u
    by (simp add: select_acquisition_def np_unique_def Let_def xs_def [symmetric]
        u_def [symmetric] counts_def [symmetric] bs_def [symmetric] j_def [symmetric] sel_def)
  then show ?thesis
    using sel_in top tie unfolding u_def counts_def by blast
qed

theorem select_acquisition_most_frequent_witness:
  "1 < card (set (map AcquisitionNumber
       [\<lparr>AcquisitionNumber = 7, PixelSpacing = (Num 1, Num 1)\<rparr>,
        \<lparr>AcquisitionNumber = 3, PixelSpacing = (Num 1, Num 1)\<rparr>,
        \<lparr>AcquisitionNumber = 7, PixelSpacing = (Num 1, Num 2)\<rparr>,
        \<lparr>AcquisitionNumber = 3, PixelSpacing = (Num 1, Num 1)\<rparr>,
        \<lparr>AcquisitionNumber = 5, PixelSpacing = (Num 1, Num 1)\<rparr>]))
   \<and> select_acquisition ''p''
       [\<lparr>AcquisitionNumber = 7, PixelSpacing = (Num 1, Num 1)\<rparr>,
        \<lparr>AcquisitionNumber = 3, PixelSpacing = (Num 1, Num 1)\<rparr>,
        \<lparr>AcquisitionNumber = 7, PixelSpacing = (Num 1, Num 2)\<rparr>,
        \<lparr>AcquisitionNumber = 3, PixelSpacing = (Num 1, Num 1)\<rparr>,
        \<lparr>AcquisitionNumber = 5, PixelSpacing = (Num 1, Num 1)\<rparr>] =
     ([\<lparr>AcquisitionNumber = 7, PixelSpacing = (Num 1, Num 1)\<rparr>,
       \<lparr>AcquisitionNumber = 7, PixelSpacing = (Num 1, Num 2)\<rparr>],
      Multiple_scan [3, 5, 7] [2, 1, 2] 7,
      [(Warning, Multiple_scan_exception [3, 5, 7]), (Warning, Patient ''p''),
       (Warning, Counts [2, 1, 2]), (Warning, Proceeding_with 7)])"
proof -
  have h: "1 < card (set (map AcquisitionNumber
       [\<lparr>AcquisitionNumber = 7, PixelSpacing = (Num 1, Num 1)\<rparr>,
        \<lparr>AcquisitionNumber = 3, PixelSpacing = (Num 1, Num 1)\<rparr>,
        \<lparr>AcquisitionNumber = 7, PixelSpacing = (Num 1, Num 2)\<rparr>,
        \<lparr>AcquisitionNumber = 3, PixelSpacing = (Num 1, Num 1)\<rparr>,
        \<lparr>AcquisitionNumber = 5, PixelSpacing = (Num 1, Num 1)\<rparr>]))"
    by (simp add: card_insert_if)
  show ?thesis
    using h select_acquisition_most_frequent [OF h, of "''p''"]
    by (simp add: select_acquisition_def np_unique_def argwhere_def)
qed

subsection \<open>C4: repair of an implausible pixel spacing\<close>

text \<open>
  C4. The invalid entry should become the most frequent valid value of its axis. The
  code takes \<^verbatim>\<open>np.argmax(np.bincount(...))\<close> of the valid values, which is their mode
  only when they are whole numbers: with two slices of spacing 0.7 the NaN of the third
  is replaced by 0. With whole valid values (1, as in the specification's example) the
  result is the mode. A string entry is not repaired: \<^verbatim>\<open>math.isnan\<close> raises on it
  before the \<^verbatim>\<open>isinstance\<close> test is reached.
\<close>

theorem repair_pixel_spacing_bins_truncated:
  "repair_pixel_spacing
     [\<lparr>AcquisitionNumber = 1, PixelSpacing = (NaN, Num (7 / 10))\<rparr>,
      \<lparr>AcquisitionNumber = 1, PixelSpacing = (Num (7 / 10), Num (7 / 10))\<rparr>,
      \<lparr>AcquisitionNumber = 1, PixelSpacing = (Num (7 / 10), Num (7 / 10))\<rparr>] =
   Inr [\<lparr>AcquisitionNumber = 1, PixelSpacing = (Num 0, Num (7 / 10))\<rparr>,
        \<lparr>AcquisitionNumber = 1, PixelSpacing = (Num (7 / 10), Num (7 / 10))\<rparr>,
        \<lparr>AcquisitionNumber = 1, PixelSpacing = (Num (7 / 10), Num (7 / 10))\<rparr>]
   \<and> repair_pixel_spacing
     [\<lparr>AcquisitionNumber = 1, PixelSpacing = (NaN, Num 1)\<rparr>,
      \<lparr>AcquisitionNumber = 1, PixelSpacing = (Num 1, Num 1)\<rparr>,
      \<lparr>AcquisitionNumber = 1, PixelSpacing = (Num 1, Num 1)\<rparr>] =
   Inr [\<lparr>AcquisitionNumber = 1, PixelSpacing = (Num 1, Num 1)\<rparr>,
        \<lparr>AcquisitionNumber = 1, PixelSpacing = (Num 1, Num 1)\<rparr>,
        \<lparr>AcquisitionNumber = 1, PixelSpacing = (Num 1, Num 1)\<rparr>]
   \<and> repair_pixel_spacing
     [\<lparr>AcquisitionNumber = 1, PixelSpacing = (Str ''1.0'', Num 1)\<rparr>,
      \<lparr>AcquisitionNumber = 1, PixelSpacing = (Num 1, Num 1)\<rparr>] =
   Inl (TypeError ''must be real number, not str'')"
  by (simp add: repair_pixel_spacing_def check_spacing_def is_exception_def np_bincount_def
      np_argmax_def argwhere_def py_int_def upt_rec)

subsection \<open>C2: the float32 storage representation\<close>

text \<open>
  C2. With \<^verbatim>\<open>data_type = 'float32'\<close>, which \<open>run\<close> accepts, \<open>process_patient\<close>
  should convert the loaded array and go on. It raises instead, for every patient and
  every installation: line 148 reads the local variable \<^verbatim>\<open>array\<close>, which is never
  assigned (the loaded array is \<^verbatim>\<open>img_array_zyx\<close>). On the example installation the
  step loads the network, starts the first batch and stops with this error.
\<close>

theorem process_patient_float32_raises:
  "(\<exists>v. process_patient pipe patient new_spacing ''float32'' = Inl (UnboundLocalError v))
   \<and> run example_pipe (example_params\<lparr>data_type := ''float32''\<rparr>) =
      (Inl (UnboundLocalError ''array''),
       [Log Info (Processing_junks 2 2), Load_network ''checkpoints'',
        Log Info (Processing_junk 0)])"
proof
  show "\<exists>v. process_patient pipe patient new_spacing ''float32'' = Inl (UnboundLocalError v)"
    by (simp add: process_patient_def split: prod.splits)
next
  show "run example_pipe (example_params\<lparr>data_type := ''float32''\<rparr>) =
      (Inl (UnboundLocalError ''array''),
       [Log Info (Processing_junks 2 2), Load_network ''checkpoints'',
        Log Info (Processing_junk 0)])"
    by (simp add: run_def example_pipe_def example_params_def process_junk_def
        process_patient_def upt_rec)
qed

subsection \<open>C8: configuration errors come first\<close>

text \<open>
  C8. \<open>run\<close> ends with a \<^verbatim>\<open>ValueError\<close> raised before the network is loaded exactly
  when \<^verbatim>\<open>data_type\<close> is neither \<^verbatim>\<open>'int16'\<close> nor \<^verbatim>\<open>'float32'\<close> or the checkpoint
  directory does not exist; in that case nothing at all has been done (no log record, no
  network, no patient). For a valid configuration no such error is raised.
\<close>

theorem run_configuration_error:
  "(((\<exists>msg. fst (run pipe ps) = Inl (ValueError msg))
      \<and> (\<forall>d. Load_network d \<notin> set (snd (run pipe ps))))
     = (data_type ps \<notin> {''int16'', ''float32''} \<or> \<not> path_exists pipe (checkpoint_dir ps)))
   \<and> (data_type ps \<notin> {''int16'', ''float32''} \<or> \<not> path_exists pipe (checkpoint_dir ps)
        \<longrightarrow> (\<exists>msg. run pipe ps = (Inl (ValueError msg), [])))"
proof (cases "data_type ps \<notin> {''int16'', ''float32''} \<or> \<not> path_exists pipe (checkpoint_dir ps)")
  case True
  then have "\<exists>msg. run pipe ps = (Inl (ValueError msg), [])"
    by (auto simp: run_def)
  then show ?thesis using True by auto
next
  case False
  have "\<not> ((\<exists>msg. fst (run pipe ps) = Inl (ValueError msg))
      \<and> (\<forall>d. Load_network d \<notin> set (snd (run pipe ps))))"
  proof (cases "n_CPUs pipe = 0")
    case True
    then have "fst (run pipe ps) = Inl ZeroDivisionError"
      using False by (auto simp: run_def)
    then show ?thesis by simp
  next
    case cpus: False
    have "Load_network (checkpoint_dir ps) \<in> set (snd (run pipe ps))"
      using False cpus by (auto simp: run_def Let_def split: prod.splits sum.splits)
    then show ?thesis by blast
  qed
  then show ?thesis using False by blast
qed

theorem run_configuration_error_witness:
  "data_type example_params \<in> {''int16'', ''float32''}
   \<and> path_exists example_pipe (checkpoint_dir example_params)
   \<and> \<not> ((\<exists>msg. fst (run example_pipe example_params) = Inl (ValueError msg))
      \<and> (\<forall>d. Load_network d \<notin> set (snd (run example_pipe example_params))))
   \<and> run example_pipe (example_params\<lparr>data_type := ''uint8''\<rparr>)
       = (Inl (ValueError ''Invalid data_type. Use int16 or float32.''), [])
   \<and> run example_pipe (example_params\<lparr>checkpoint_dir := ''missing''\<rparr>)
       = (Inl (ValueError ''checkpoint_dir missing does not exist.''), [])"
  using run_configuration_error [of example_pipe example_params]
    run_configuration_error [of example_pipe "example_params\<lparr>data_type := ''uint8''\<rparr>"]
  by (simp add: run_def example_pipe_def example_params_def)

subsection \<open>C9: the metadata store is written at the end of a batch\<close>

text \<open>
  C9, as stated, for every batch: it fails for a batch in which the processing of a
  patient raises. Nothing catches the exception, so the batch ends before its last
  statement and the store is not written at all. On the example installation with
  \<^verbatim>\<open>data_type = 'float32'\<close> the first batch raises in \<open>process_patient\<close> and does
  nothing to the outside.
\<close>

theorem process_junk_raises_no_flush:
  "process_junk example_pipe 0 [''a'', ''b''] (example_params\<lparr>data_type := ''float32''\<rparr>)
     = (Inl (UnboundLocalError ''array''), [])
   \<and> \<not> (\<exists>pre m recs.
          snd (process_junk example_pipe 0 [''a'', ''b'']
                 (example_params\<lparr>data_type := ''float32''\<rparr>)) = pre @ [Save_json m recs])"
  by (simp add: process_junk_def example_pipe_def example_params_def process_patient_def)

text \<open>
  C9, amended. A batch that is processed without an exception writes the store exactly
  once, as its last effect, after the cropped array of every patient of the batch has
  been written; the store holds the records of exactly these patients, and the mode is
  \<^verbatim>\<open>'w'\<close> for batch 0 and \<^verbatim>\<open>'a'\<close> for every later batch. A batch that raises does
  not write the store.
\<close>

theorem process_junk_flush:
  assumes "process_junk pipe junk_cnt patients_junk ps = (res, evs)"
  shows "(res = Inr () \<longrightarrow>
           (\<exists>pre recs. evs = pre @ [Save_json (if junk_cnt = 0 then ''w'' else ''a'') recs]
              \<and> (\<forall>m r. Save_json m r \<notin> set pre)
              \<and> set (map fst recs) = set patients_junk
              \<and> (\<forall>p \<in> set patients_junk. \<exists>box. Save_array (p @ ''_img.npy'') box \<in> set pre)))
       \<and> ((\<exists>e. res = Inl e) \<longrightarrow> (\<forall>m r. Save_json m r \<notin> set evs))"
proof (cases "min (n_CPUs pipe) (length patients_junk) = 0")
  case True
  then show ?thesis using assms by (auto simp: process_junk_def)
next
  case jobs: False
  show ?thesis
  proof (cases "process_patients pipe patients_junk (new_spacing_zyx ps) (data_type ps)")
    case (Inl e)
    then show ?thesis using assms jobs by (auto simp: process_junk_def)
  next
    case (Inr results)
    have keys: "map fst results = patients_junk"
      using Inr by (rule process_patients_keys)
    obtain r2 e2 where c: "crop_patients pipe ps (py_dict results) = (r2, e2)" by fastforce
    have nojson: "Save_json m r \<notin> set e2" for m r
      using c by (rule crop_patients_no_json)
    show ?thesis
    proof (cases r2)
      case (Inl e)
      then show ?thesis using assms jobs Inr c nojson by (auto simp: process_junk_def)
    next
      case r2: (Inr recs)
      have s: "map fst recs = map fst (py_dict results)
         \<and> (\<forall>p \<in> fst ` set (py_dict results). \<exists>box. Save_array (p @ ''_img.npy'') box \<in> set e2)"
        using c r2 crop_patients_saved by blast
      have k: "fst ` set (py_dict results) = set patients_junk"
        using keys py_dict_keys [of results] by (metis set_map)
      have "set (map fst recs) = set patients_junk" using s k by (metis set_map)
      moreover have "\<forall>p \<in> set patients_junk. \<exists>box. Save_array (p @ ''_img.npy'') box \<in> set e2"
        using s k by simp
      moreover have "res = Inr ()"
        "evs = e2 @ [Save_json (if junk_cnt = 0 then ''w'' else ''a'') recs]"
        using assms jobs Inr c r2 by (auto simp: process_junk_def)
      ultimately show ?thesis using nojson by blast
    qed
  qed
qed

theorem process_junk_flush_witness:
  "fst (process_junk example_pipe 1 [''c''] example_params) = Inr ()
   \<and> (\<exists>pre recs. snd (process_junk example_pipe 1 [''c''] example_params)
          = pre @ [Save_json ''a'' recs]
        \<and> (\<forall>m r. Save_json m r \<notin> set pre)
        \<and> set (map fst recs) = {''c''}
        \<and> (\<exists>box. Save_array ''c_img.npy'' box \<in> set pre))
   \<and> snd (process_junk example_pipe 0 [''a''] example_params)
       = [Save_array ''a_img.npy'' [0, 4, 0, 4],
          Save_json ''w''
            [(''a'',
              \<lparr>info =
                 \<lparr>resampled_scan_spacing_zyx_mm = (1, 1, 1),
                  resampled_scan_shape_zyx_px = (4, 4, 4),
                  raw_scan_spacing_zyx_mm = (2, 1, 1),
                  raw_scan_shape_zyx_px = (2, 4, 4),
                  raw_scan_origin_zyx_mm = None,
                  acquisition_exception = No_exception\<rparr>,
               bound_box_coords_yx_px = [0, 4, 0, 4],
               bound_box_shape_yx_px = [5, 5], basename = ''a_img.npy'',
               pathname = ''out/a_img.npy''\<rparr>)]]"
proof -
  have e: "process_junk example_pipe 1 [''c''] example_params =
     (Inr (),
      [Log Warning (No_lung_wings_found ''c''), Save_array ''c_img.npy'' [0, 4, 0, 4],
       Save_json ''a''
         [(''c'',
           \<lparr>info =
              \<lparr>resampled_scan_spacing_zyx_mm = (1, 1, 1),
               resampled_scan_shape_zyx_px = (4, 4, 4),
               raw_scan_spacing_zyx_mm = (2, 1, 1),
               raw_scan_shape_zyx_px = (2, 4, 4),
               raw_scan_origin_zyx_mm = None,
               acquisition_exception = No_exception\<rparr>,
            bound_box_coords_yx_px = [0, 4, 0, 4],
            bound_box_shape_yx_px = [5, 5], basename = ''c_img.npy'',
            pathname = ''out/c_img.npy''\<rparr>)]])"
    by (simp add: process_junk_def example_pipe_def example_params_def process_patient_def
      resize_and_interpolate_array_def example_resized shape_of_ints_def py_dict_def crop_patient_def clip_HU_range_def
      collect_crop_coords_def get_crop_idx_yx_def contourArea_def bound_box_coords_def
      layers_coords_def bound_box_shape_def py_int_def)
  have a: "snd (process_junk example_pipe 0 [''a''] example_params)
       = [Save_array ''a_img.npy'' [0, 4, 0, 4],
          Save_json ''w''
            [(''a'',
              \<lparr>info =
                 \<lparr>resampled_scan_spacing_zyx_mm = (1, 1, 1),
                  resampled_scan_shape_zyx_px = (4, 4, 4),
                  raw_scan_spacing_zyx_mm = (2, 1, 1),
                  raw_scan_shape_zyx_px = (2, 4, 4),
                  raw_scan_origin_zyx_mm = None,
                  acquisition_exception = No_exception\<rparr>,
               bound_box_coords_yx_px = [0, 4, 0, 4],
               bound_box_shape_yx_px = [5, 5], basename = ''a_img.npy'',
               pathname = ''out/a_img.npy''\<rparr>)]]"
    by (simp add: process_junk_def example_pipe_def example_params_def process_patient_def
      resize_and_interpolate_array_def example_resized shape_of_ints_def py_dict_def crop_patient_def clip_HU_range_def
      collect_crop_coords_def get_crop_idx_yx_def contourArea_def bound_box_coords_def
      layers_coords_def bound_box_shape_def py_int_def)
  show ?thesis
    using process_junk_flush [OF e] a unfolding e by simp
qed

end
